theory Spec2Isabelle
  imports Main "HOL-Library.Word"
begin

unbundle bit_operations_syntax

section \<open>Constants of headers that the sources include\<close>

text \<open>
  Modelled from the spec: the numeric constants of \<^verbatim>\<open>virtio/virtio.h\<close> and
  \<^verbatim>\<open>zircon/errors.h\<close>, headers that the modelled sources include and that are not part
  of them. Section 6 of the specification lists the status bits, the ISR bits and the
  capability type codes as wire constants whose values come from the external transport
  specification (Virtio 1.0); the values below are those, and the status codes and the
  page size are the ones of the Zircon system headers. The pre-refactor
  \<^verbatim>\<open>Device::IrqWorker\<close> tests the two interrupt causes with the literals \<^verbatim>\<open>0x1\<close> and
  \<^verbatim>\<open>0x2\<close>, which agrees with the two ISR constants. \<open>PCI_RESOURCE_BAR_0\<close> and
  \<open>kPciCfgCapabilitiesPtr\<close> are enumerators of \<^verbatim>\<open>ddk/protocol/pci.h\<close>.
\<close>

type_synonym zx_status_t = int
type_synonym zx_handle_t = "32 word"
type_synonym uintptr_t = "64 word"

definition ZX_OK :: zx_status_t where "ZX_OK = 0"
definition ZX_ERR_NOT_SUPPORTED :: zx_status_t where "ZX_ERR_NOT_SUPPORTED = - 2"
definition ZX_ERR_INVALID_ARGS :: zx_status_t where "ZX_ERR_INVALID_ARGS = - 10"
definition ZX_ERR_BAD_STATE :: zx_status_t where "ZX_ERR_BAD_STATE = - 20"
definition ZX_HANDLE_INVALID :: zx_handle_t where "ZX_HANDLE_INVALID = 0"
definition PCI_RESOURCE_BAR_0 :: nat where "PCI_RESOURCE_BAR_0 = 0"
definition kPciCfgCapabilitiesPtr :: "8 word" where "kPciCfgCapabilitiesPtr = 0x34"
definition PAGE_SIZE :: nat where "PAGE_SIZE = 4096"

text \<open>Device status bits (Virtio 1.0, section 2.1).\<close>

definition VIRTIO_STATUS_ACKNOWLEDGE :: "8 word" where "VIRTIO_STATUS_ACKNOWLEDGE = 1"
definition VIRTIO_STATUS_DRIVER :: "8 word" where "VIRTIO_STATUS_DRIVER = 2"
definition VIRTIO_STATUS_DRIVER_OK :: "8 word" where "VIRTIO_STATUS_DRIVER_OK = 4"
definition VIRTIO_STATUS_FEATURES_OK :: "8 word" where "VIRTIO_STATUS_FEATURES_OK = 8"

text \<open>Interrupt causes of the ISR status register (Virtio 1.0, section 4.1.4.5).\<close>

definition VIRTIO_ISR_QUEUE_INT :: "32 word" where "VIRTIO_ISR_QUEUE_INT = 1"
definition VIRTIO_ISR_DEV_CFG_INT :: "32 word" where "VIRTIO_ISR_DEV_CFG_INT = 2"

text \<open>Configuration types of the vendor capability (Virtio 1.0, section 4.1.4).\<close>

definition VIRTIO_PCI_CAP_COMMON_CFG :: "8 word" where "VIRTIO_PCI_CAP_COMMON_CFG = 1"
definition VIRTIO_PCI_CAP_NOTIFY_CFG :: "8 word" where "VIRTIO_PCI_CAP_NOTIFY_CFG = 2"
definition VIRTIO_PCI_CAP_ISR_CFG :: "8 word" where "VIRTIO_PCI_CAP_ISR_CFG = 3"
definition VIRTIO_PCI_CAP_DEVICE_CFG :: "8 word" where "VIRTIO_PCI_CAP_DEVICE_CFG = 4"
definition VIRTIO_PCI_CAP_PCI_CFG :: "8 word" where "VIRTIO_PCI_CAP_PCI_CFG = 5"

text \<open>Register offsets of the legacy port window (Virtio 1.0, section 4.1.4.8).\<close>

definition VIRTIO_PCI_QUEUE_PFN :: "16 word" where "VIRTIO_PCI_QUEUE_PFN = 0x8"
definition VIRTIO_PCI_QUEUE_SIZE :: "16 word" where "VIRTIO_PCI_QUEUE_SIZE = 0xc"
definition VIRTIO_PCI_QUEUE_SELECT :: "16 word" where "VIRTIO_PCI_QUEUE_SELECT = 0xe"
definition VIRTIO_PCI_QUEUE_NOTIFY :: "16 word" where "VIRTIO_PCI_QUEUE_NOTIFY = 0x10"
definition VIRTIO_PCI_DEVICE_STATUS :: "16 word" where "VIRTIO_PCI_DEVICE_STATUS = 0x12"
definition VIRTIO_PCI_ISR_STATUS :: "16 word" where "VIRTIO_PCI_ISR_STATUS = 0x13"

text \<open>
  Modelled from the spec: the layout of \<^verbatim>\<open>virtio_pci_common_cfg_t\<close>, declared in
  \<^verbatim>\<open>virtio/virtio.h\<close>. These are the byte offsets of the fields that the sources access
  in the common-config block of the specification (Virtio 1.0, section 4.1.4.3). The
  functions below take the address of a field as the block's base address plus the
  field's offset, as \<^verbatim>\<open>&common_cfg_->field\<close> does.
\<close>

definition off_device_status :: uintptr_t where "off_device_status = 20"
definition off_queue_select :: uintptr_t where "off_queue_select = 22"
definition off_queue_size :: uintptr_t where "off_queue_size = 24"
definition off_queue_enable :: uintptr_t where "off_queue_enable = 28"
definition off_queue_notify_off :: uintptr_t where "off_queue_notify_off = 30"
definition off_queue_desc :: uintptr_t where "off_queue_desc = 32"
definition off_queue_avail :: uintptr_t where "off_queue_avail = 40"
definition off_queue_used :: uintptr_t where "off_queue_used = 48"

section \<open>Device registers\<close>

text \<open>
  A register lives either in memory-mapped space (a pointer) or in port space (a 16-bit
  port number). The sources access every register field with the width of its type only
  (the comment above \<^verbatim>\<open>MmioWrite\<close> says so), so the register file keeps one table per
  access width. An 8-bit register holds, after a write, what the device latches of the
  written value (\<open>latch8\<close>): a device may refuse a status bit. Every access is appended to
  the \<open>trace\<close>, which makes the order of the accesses of an operation observable.
\<close>

datatype location = Mmio uintptr_t | Port "16 word"

datatype access =
    Read8 location "8 word"
  | Write8 location "8 word"
  | Read16 location "16 word"
  | Write16 location "16 word"
  | Read32 location "32 word"
  | Write32 location "32 word"

record hw =
  reg8 :: "location \<Rightarrow> 8 word"
  reg16 :: "location \<Rightarrow> 16 word"
  reg32 :: "location \<Rightarrow> 32 word"
  latch8 :: "location \<Rightarrow> 8 word \<Rightarrow> 8 word"
  trace :: "access list"

definition read8 :: "location \<Rightarrow> hw \<Rightarrow> 8 word \<times> hw" where
  "read8 l h = (reg8 h l, h\<lparr>trace := trace h @ [Read8 l (reg8 h l)]\<rparr>)"

definition write8 :: "location \<Rightarrow> 8 word \<Rightarrow> hw \<Rightarrow> hw" where
  "write8 l v h = h\<lparr>reg8 := (reg8 h)(l := latch8 h l v), trace := trace h @ [Write8 l v]\<rparr>"

definition read16 :: "location \<Rightarrow> hw \<Rightarrow> 16 word \<times> hw" where
  "read16 l h = (reg16 h l, h\<lparr>trace := trace h @ [Read16 l (reg16 h l)]\<rparr>)"

definition write16 :: "location \<Rightarrow> 16 word \<Rightarrow> hw \<Rightarrow> hw" where
  "write16 l v h = h\<lparr>reg16 := (reg16 h)(l := v), trace := trace h @ [Write16 l v]\<rparr>"

definition read32 :: "location \<Rightarrow> hw \<Rightarrow> 32 word \<times> hw" where
  "read32 l h = (reg32 h l, h\<lparr>trace := trace h @ [Read32 l (reg32 h l)]\<rparr>)"

definition write32 :: "location \<Rightarrow> 32 word \<Rightarrow> hw \<Rightarrow> hw" where
  "write32 l v h = h\<lparr>reg32 := (reg32 h)(l := v), trace := trace h @ [Write32 l v]\<rparr>"

text \<open>The writes of a trace, in order: what the device has been told.\<close>

fun is_write :: "access \<Rightarrow> bool" where
  "is_write (Write8 l v) = True"
| "is_write (Write16 l v) = True"
| "is_write (Write32 l v) = True"
| "is_write (Read8 l v) = False"
| "is_write (Read16 l v) = False"
| "is_write (Read32 l v) = False"

definition writes :: "access list \<Rightarrow> access list" where
  "writes t = filter is_write t"

subsection \<open>Port I/O (\<^verbatim>\<open>hw/inout.h\<close>)\<close>

definition inp :: "16 word \<Rightarrow> hw \<Rightarrow> 8 word \<times> hw" where
  "inp port h = read8 (Port port) h"

definition outp :: "16 word \<Rightarrow> 8 word \<Rightarrow> hw \<Rightarrow> hw" where
  "outp port v h = write8 (Port port) v h"

definition outpw :: "16 word \<Rightarrow> 16 word \<Rightarrow> hw \<Rightarrow> hw" where
  "outpw port v h = write16 (Port port) v h"

definition outpd :: "16 word \<Rightarrow> 32 word \<Rightarrow> hw \<Rightarrow> hw" where
  "outpd port v h = write32 (Port port) v h"

subsection \<open>Memory-mapped access (\<^verbatim>\<open>pci_modern.cpp\<close>, anonymous namespace)\<close>

text \<open>The templates \<^verbatim>\<open>MmioWrite<T>\<close> and \<^verbatim>\<open>MmioRead<T>\<close>, one instance per width.\<close>

definition MmioWrite8 :: "uintptr_t \<Rightarrow> 8 word \<Rightarrow> hw \<Rightarrow> hw" where
  "MmioWrite8 addr v h = write8 (Mmio addr) v h"

definition MmioRead8 :: "uintptr_t \<Rightarrow> hw \<Rightarrow> 8 word \<times> hw" where
  "MmioRead8 addr h = read8 (Mmio addr) h"

definition MmioWrite16 :: "uintptr_t \<Rightarrow> 16 word \<Rightarrow> hw \<Rightarrow> hw" where
  "MmioWrite16 addr v h = write16 (Mmio addr) v h"

definition MmioRead16 :: "uintptr_t \<Rightarrow> hw \<Rightarrow> 16 word \<times> hw" where
  "MmioRead16 addr h = read16 (Mmio addr) h"

definition MmioWrite32 :: "uintptr_t \<Rightarrow> 32 word \<Rightarrow> hw \<Rightarrow> hw" where
  "MmioWrite32 addr v h = write32 (Mmio addr) v h"

definition MmioRead32 :: "uintptr_t \<Rightarrow> hw \<Rightarrow> 32 word \<times> hw" where
  "MmioRead32 addr h = read32 (Mmio addr) h"

text \<open>
  The overloads for \<^verbatim>\<open>uint64_t\<close>. \<^verbatim>\<open>words[0]\<close> is the 32-bit word at \<open>addr\<close> and
  \<^verbatim>\<open>words[1]\<close> the one at \<open>addr + 4\<close>. The read stores \<^verbatim>\<open>words[0]\<close> in \<^verbatim>\<open>val[0]\<close>,
  the low half of the result on the little-endian machines this kernel runs on, and
  \<^verbatim>\<open>words[1]\<close> in the high half.
\<close>

definition MmioWrite64 :: "uintptr_t \<Rightarrow> 64 word \<Rightarrow> hw \<Rightarrow> hw" where
  "MmioWrite64 addr v h =
     (let h1 = write32 (Mmio addr) (ucast (v AND 0xFFFFFFFF)) h
      in write32 (Mmio (addr + 4)) (ucast (drop_bit 32 v)) h1)"

definition MmioRead64 :: "uintptr_t \<Rightarrow> hw \<Rightarrow> 64 word \<times> hw" where
  "MmioRead64 addr h =
     (let (lo, h1) = read32 (Mmio addr) h;
          (hi, h2) = read32 (Mmio (addr + 4)) h1
      in (ucast lo OR push_bit 32 (ucast hi), h2))"

section \<open>The bus layer that the backends consume\<close>

text \<open>
  \<^verbatim>\<open>virtio_pci_cap_t\<close>, the vendor capability record. The C fields \<^verbatim>\<open>bar\<close>,
  \<^verbatim>\<open>offset\<close> and \<^verbatim>\<open>length\<close> carry the prefix \<open>cap_\<close> here.
\<close>

record virtio_pci_cap =
  cap_vndr :: "8 word"
  cap_next :: "8 word"
  cap_len :: "8 word"
  cfg_type :: "8 word"
  cap_bar :: "8 word"
  cap_offset :: "32 word"
  cap_length :: "32 word"

text \<open>
  \<^verbatim>\<open>pci_protocol_t\<close>, as the backend uses it through the inline wrappers of
  \<^verbatim>\<open>ddk/protocol/pci.h\<close>. The wrappers forward to the operations table of the bus
  driver, whose implementation is outside the modelled sources, so the answers of the
  operations are the fields of a record and every statement below holds for whatever they
  are. \<open>pci_get_next_capability\<close> is the answer of \<^verbatim>\<open>get_next_capability\<close> for an offset
  and \<^verbatim>\<open>kPciCapIdVendor\<close>, the only capability type the backend asks for;
  \<open>pci_config_read8\<close> is the low byte of a configuration read of width 8 and
  \<open>pci_config_read32\<close> the read of width 32; \<open>pci_map_resource\<close> returns the status, the
  base address and the handle of the mapping (the size is not used by the callers).
\<close>

record pci_protocol =
  pci_get_next_capability :: "8 word \<Rightarrow> 8 word"
  pci_config_read8 :: "8 word \<Rightarrow> 8 word"
  pci_config_read32 :: "8 word \<Rightarrow> 32 word"
  pci_map_resource :: "nat \<Rightarrow> zx_status_t \<times> uintptr_t \<times> zx_handle_t"

text \<open>
  \<^verbatim>\<open>pci_get_first_capability\<close>: the capabilities pointer of the header, less one, is
  treated as a capability record whose next pointer is looked at.
\<close>

definition pci_get_first_capability :: "pci_protocol \<Rightarrow> 8 word" where
  "pci_get_first_capability pci = pci_get_next_capability pci (kPciCfgCapabilitiesPtr - 1)"

text \<open>
  \<^verbatim>\<open>ReadVirtioCap\<close>. The macro \<^verbatim>\<open>cap_field\<close> adds the field's offset in
  \<^verbatim>\<open>virtio_pci_cap_t\<close> (0, 1, 2, 3, 4, 8 and 12; the record is 16 bytes long) and casts
  to \<^verbatim>\<open>uint8_t\<close>, which is addition of 8-bit words.
\<close>

definition ReadVirtioCap :: "pci_protocol \<Rightarrow> 8 word \<Rightarrow> virtio_pci_cap" where
  "ReadVirtioCap pci offset =
     \<lparr>cap_vndr = pci_config_read8 pci (offset + 0),
      cap_next = pci_config_read8 pci (offset + 1),
      cap_len = pci_config_read8 pci (offset + 2),
      cfg_type = pci_config_read8 pci (offset + 3),
      cap_bar = pci_config_read8 pci (offset + 4),
      cap_offset = pci_config_read32 pci (offset + 8),
      cap_length = pci_config_read32 pci (offset + 12)\<rparr>"

section \<open>The modern backend (\<^verbatim>\<open>pci_modern.cpp\<close>)\<close>

text \<open>
  The members of \<^verbatim>\<open>PciModernBackend\<close> are written without the trailing underscore of
  the C++ names; \<^verbatim>\<open>bar_[6]\<close> is \<open>bars\<close>, a table that the code indexes below 6 only.
  \<open>map_calls\<close> is not a member: it logs the resource ids passed to \<^verbatim>\<open>pci_map_resource\<close>,
  in order, so that a call of the bus-mapping primitive is observable. The backend lock
  serialises the operations; each operation is modelled as it runs under the lock.
\<close>

record bar =
  mmio_base :: uintptr_t
  mmio_handle :: zx_handle_t

record PciModernBackend =
  bars :: "nat \<Rightarrow> bar"
  notify_base :: uintptr_t
  isr_status :: uintptr_t
  device_cfg :: uintptr_t
  common_cfg :: uintptr_t
  notify_off_mul :: "32 word"
  map_calls :: "nat list"

text \<open>
  The state after construction, from the member initialisers of \<^verbatim>\<open>pci.h\<close>.
  \<^verbatim>\<open>notify_off_mul_\<close> has no initialiser: its first value is the argument.
\<close>

definition PciModernBackend_new :: "32 word \<Rightarrow> PciModernBackend" where
  "PciModernBackend_new m =
     \<lparr>bars = (\<lambda>i. \<lparr>mmio_base = 0, mmio_handle = ZX_HANDLE_INVALID\<rparr>),
      notify_base = 0, isr_status = 0, device_cfg = 0, common_cfg = 0,
      notify_off_mul = m, map_calls = []\<rparr>"

definition MapBar :: "pci_protocol \<Rightarrow> 8 word \<Rightarrow> PciModernBackend \<Rightarrow> zx_status_t \<times> PciModernBackend" where
  "MapBar pci b s =
     (if unat b \<ge> 6 then (ZX_ERR_INVALID_ARGS, s)
      else if mmio_handle (bars s (unat b)) \<noteq> ZX_HANDLE_INVALID then (ZX_OK, s)
      else
        (case pci_map_resource pci (PCI_RESOURCE_BAR_0 + unat b) of (st, base, handle) \<Rightarrow>
           (let s1 = s\<lparr>map_calls := map_calls s @ [PCI_RESOURCE_BAR_0 + unat b]\<rparr>
            in if st \<noteq> ZX_OK then (st, s1)
               else (ZX_OK, s1\<lparr>bars := (bars s1)(unat b := \<lparr>mmio_base = base, mmio_handle = handle\<rparr>)\<rparr>))))"

definition CommonCfgCallback :: "pci_protocol \<Rightarrow> virtio_pci_cap \<Rightarrow> PciModernBackend \<Rightarrow> PciModernBackend" where
  "CommonCfgCallback pci cap s =
     (case MapBar pci (cap_bar cap) s of (st, s1) \<Rightarrow>
        if st \<noteq> ZX_OK then s1
        else s1\<lparr>common_cfg := mmio_base (bars s1 (unat (cap_bar cap))) + ucast (cap_offset cap)\<rparr>)"

definition NotifyCfgCallback :: "pci_protocol \<Rightarrow> virtio_pci_cap \<Rightarrow> PciModernBackend \<Rightarrow> PciModernBackend" where
  "NotifyCfgCallback pci cap s =
     (case MapBar pci (cap_bar cap) s of (st, s1) \<Rightarrow>
        if st \<noteq> ZX_OK then s1
        else s1\<lparr>notify_base := mmio_base (bars s1 (unat (cap_bar cap))) + ucast (cap_offset cap)\<rparr>)"

definition IsrCfgCallback :: "pci_protocol \<Rightarrow> virtio_pci_cap \<Rightarrow> PciModernBackend \<Rightarrow> PciModernBackend" where
  "IsrCfgCallback pci cap s =
     (case MapBar pci (cap_bar cap) s of (st, s1) \<Rightarrow>
        if st \<noteq> ZX_OK then s1
        else s1\<lparr>isr_status := mmio_base (bars s1 (unat (cap_bar cap))) + ucast (cap_offset cap)\<rparr>)"

definition DeviceCfgCallback :: "pci_protocol \<Rightarrow> virtio_pci_cap \<Rightarrow> PciModernBackend \<Rightarrow> PciModernBackend" where
  "DeviceCfgCallback pci cap s =
     (case MapBar pci (cap_bar cap) s of (st, s1) \<Rightarrow>
        if st \<noteq> ZX_OK then s1
        else s1\<lparr>device_cfg := mmio_base (bars s1 (unat (cap_bar cap))) + ucast (cap_offset cap)\<rparr>)"

definition PciCfgCallback :: "pci_protocol \<Rightarrow> virtio_pci_cap \<Rightarrow> PciModernBackend \<Rightarrow> PciModernBackend" where
  "PciCfgCallback pci cap s = s"

text \<open>
  The body of the loop of \<^verbatim>\<open>PciModernBackend::Init\<close> for the capability at \<open>off\<close>: the
  \<^verbatim>\<open>switch\<close> on \<^verbatim>\<open>cap.cfg_type\<close>, which has no default case.
\<close>

definition Init_body :: "pci_protocol \<Rightarrow> 8 word \<Rightarrow> PciModernBackend \<Rightarrow> PciModernBackend" where
  "Init_body pci off s =
     (let cap = ReadVirtioCap pci off
      in if cfg_type cap = VIRTIO_PCI_CAP_COMMON_CFG then CommonCfgCallback pci cap s
         else if cfg_type cap = VIRTIO_PCI_CAP_NOTIFY_CFG then
           NotifyCfgCallback pci cap (s\<lparr>notify_off_mul := pci_config_read32 pci (off + 16)\<rparr>)
         else if cfg_type cap = VIRTIO_PCI_CAP_ISR_CFG then IsrCfgCallback pci cap s
         else if cfg_type cap = VIRTIO_PCI_CAP_DEVICE_CFG then DeviceCfgCallback pci cap s
         else if cfg_type cap = VIRTIO_PCI_CAP_PCI_CFG then PciCfgCallback pci cap s
         else s)"

text \<open>
  The loop itself: \<^verbatim>\<open>for (off = first; off != 0; off = next(off))\<close>. The source puts no
  bound on the number of iterations, so the loop is a partial function: \<open>None\<close> is the
  loop that never ends.
\<close>

partial_function (option) Init_loop :: "pci_protocol \<Rightarrow> 8 word \<Rightarrow> PciModernBackend \<Rightarrow> PciModernBackend option" where
  "Init_loop pci off s =
     (if off = 0 then Some s
      else Init_loop pci (pci_get_next_capability pci off) (Init_body pci off s))"

definition Init_check :: "PciModernBackend \<Rightarrow> zx_status_t" where
  "Init_check s =
     (if common_cfg s = 0 \<or> isr_status s = 0 \<or> device_cfg s = 0 \<or> notify_base s = 0
      then ZX_ERR_BAD_STATE else ZX_OK)"

definition Init :: "pci_protocol \<Rightarrow> PciModernBackend \<Rightarrow> (zx_status_t \<times> PciModernBackend) option" where
  "Init pci s =
     (case Init_loop pci (pci_get_first_capability pci) s of
        None \<Rightarrow> None
      | Some s1 \<Rightarrow> Some (Init_check s1, s1))"

text \<open>
  The capability list ends within \<open>n\<close> steps from \<open>off\<close>: following the bus layer's
  get-next from \<open>off\<close> reaches offset 0 after at most \<open>n\<close> records.
\<close>

fun list_ends :: "nat \<Rightarrow> pci_protocol \<Rightarrow> 8 word \<Rightarrow> bool" where
  "list_ends 0 pci off = (off = 0)"
| "list_ends (Suc n) pci off = (if off = 0 then True else list_ends n pci (pci_get_next_capability pci off))"

text \<open>Ring and status operations of the modern backend.\<close>

definition GetRingSize :: "PciModernBackend \<Rightarrow> 16 word \<Rightarrow> hw \<Rightarrow> 16 word \<times> hw" where
  "GetRingSize b index h =
     (let h1 = MmioWrite16 (common_cfg b + off_queue_select) index h
      in MmioRead16 (common_cfg b + off_queue_size) h1)"

definition SetRing :: "PciModernBackend \<Rightarrow> 16 word \<Rightarrow> 16 word \<Rightarrow> 64 word \<Rightarrow> 64 word \<Rightarrow> 64 word \<Rightarrow> hw \<Rightarrow> hw" where
  "SetRing b index count pa_desc pa_avail pa_used h =
     (let h1 = MmioWrite16 (common_cfg b + off_queue_select) index h;
          h2 = MmioWrite16 (common_cfg b + off_queue_size) count h1;
          h3 = MmioWrite64 (common_cfg b + off_queue_desc) pa_desc h2;
          h4 = MmioWrite64 (common_cfg b + off_queue_avail) pa_avail h3;
          h5 = MmioWrite64 (common_cfg b + off_queue_used) pa_used h4;
          h6 = MmioWrite64 (common_cfg b + off_queue_desc) pa_desc h5
      in MmioWrite16 (common_cfg b + off_queue_enable) 1 h6)"

text \<open>
  \<^verbatim>\<open>notify_base_ + queue_notify_off * notify_off_mul_\<close>: the \<^verbatim>\<open>uint16_t\<close> is promoted
  and multiplied with the \<^verbatim>\<open>uint32_t\<close> in 32-bit unsigned arithmetic, and the product is
  widened to the pointer's 64 bits for the addition.
\<close>

definition RingKick :: "PciModernBackend \<Rightarrow> 16 word \<Rightarrow> hw \<Rightarrow> hw" where
  "RingKick b ring_index h =
     (case MmioRead16 (common_cfg b + off_queue_notify_off) h of (queue_notify_off, h1) \<Rightarrow>
        (let addr = notify_base b + ucast ((ucast queue_notify_off :: 32 word) * notify_off_mul b)
         in write16 (Mmio addr) ring_index h1))"

definition DeviceReset :: "PciModernBackend \<Rightarrow> hw \<Rightarrow> hw" where
  "DeviceReset b h = MmioWrite8 (common_cfg b + off_device_status) 0 h"

definition DriverStatusOk :: "PciModernBackend \<Rightarrow> hw \<Rightarrow> hw" where
  "DriverStatusOk b h =
     (case MmioRead8 (common_cfg b + off_device_status) h of (device_status, h1) \<Rightarrow>
        MmioWrite8 (common_cfg b + off_device_status) (device_status OR VIRTIO_STATUS_DRIVER_OK) h1)"

definition DriverStatusAck :: "PciModernBackend \<Rightarrow> hw \<Rightarrow> hw" where
  "DriverStatusAck b h =
     (case MmioRead8 (common_cfg b + off_device_status) h of (device_status, h1) \<Rightarrow>
        MmioWrite8 (common_cfg b + off_device_status) (device_status OR VIRTIO_STATUS_ACKNOWLEDGE) h1)"

definition IsrStatus :: "PciModernBackend \<Rightarrow> hw \<Rightarrow> 32 word \<times> hw" where
  "IsrStatus b h =
     (case read32 (Mmio (isr_status b)) h of (v, h1) \<Rightarrow>
        (v AND (VIRTIO_ISR_QUEUE_INT OR VIRTIO_ISR_DEV_CFG_INT), h1))"

section \<open>The legacy backend (\<^verbatim>\<open>pci_legacy.cpp\<close>)\<close>

record PciLegacyBackend =
  bar0_base :: "16 word"
  device_cfg_offset :: "16 word"

definition Legacy_SetRing :: "PciLegacyBackend \<Rightarrow> 16 word \<Rightarrow> 16 word \<Rightarrow> 64 word \<Rightarrow> 64 word \<Rightarrow> 64 word \<Rightarrow> hw \<Rightarrow> hw" where
  "Legacy_SetRing b index count pa_desc pa_avail pa_used h =
     (let h1 = outpw (bar0_base b + VIRTIO_PCI_QUEUE_SELECT) index h;
          h2 = outpw (bar0_base b + VIRTIO_PCI_QUEUE_SIZE) count h1
      in outpd (bar0_base b + VIRTIO_PCI_QUEUE_PFN) (ucast (pa_desc div 4096)) h2)"

definition Legacy_RingKick :: "PciLegacyBackend \<Rightarrow> 16 word \<Rightarrow> hw \<Rightarrow> hw" where
  "Legacy_RingKick b ring_index h = outpw (bar0_base b + VIRTIO_PCI_QUEUE_NOTIFY) ring_index h"

definition Legacy_DeviceReset :: "PciLegacyBackend \<Rightarrow> hw \<Rightarrow> hw" where
  "Legacy_DeviceReset b h = outp (bar0_base b + VIRTIO_PCI_DEVICE_STATUS) 0 h"

definition Legacy_DriverStatusAck :: "PciLegacyBackend \<Rightarrow> hw \<Rightarrow> hw" where
  "Legacy_DriverStatusAck b h =
     (let addr = bar0_base b + VIRTIO_PCI_DEVICE_STATUS
      in case inp addr h of (v, h1) \<Rightarrow>
           outp addr (v OR VIRTIO_STATUS_ACKNOWLEDGE OR VIRTIO_STATUS_DRIVER) h1)"

definition Legacy_DriverStatusOk :: "PciLegacyBackend \<Rightarrow> hw \<Rightarrow> hw" where
  "Legacy_DriverStatusOk b h =
     (let addr = bar0_base b + VIRTIO_PCI_DEVICE_STATUS
      in case inp addr h of (v, h1) \<Rightarrow> outp addr (v OR VIRTIO_STATUS_DRIVER_OK) h1)"

text \<open>
  \<^verbatim>\<open>PciLegacyBackend::IsrStatus\<close>. The closing parenthesis of \<^verbatim>\<open>inp(\<close> comes after the
  mask, so the mask is applied to the port number, and the byte read from that port is
  returned as it is, widened to \<^verbatim>\<open>uint32_t\<close>.
\<close>

definition Legacy_IsrStatus :: "PciLegacyBackend \<Rightarrow> hw \<Rightarrow> 32 word \<times> hw" where
  "Legacy_IsrStatus b h =
     (case inp ((bar0_base b + VIRTIO_PCI_ISR_STATUS)
                  AND ucast (VIRTIO_ISR_QUEUE_INT OR VIRTIO_ISR_DEV_CFG_INT)) h of
        (v, h1) \<Rightarrow> (ucast v, h1))"

section \<open>The device core before the refactoring (\<^verbatim>\<open>device.cpp\<close>, first version)\<close>

text \<open>
  In this version \<^verbatim>\<open>Device\<close> holds the transport logic itself. \<^verbatim>\<open>pci_config_\<close> points
  at the mapped configuration space; the capability walk of \<^verbatim>\<open>Device::Bind\<close> reads the
  capability record at byte offset \<open>off\<close> through a pointer cast (\<open>cap_at\<close>), and for a
  notify capability the 32-bit field that follows the record (\<open>notify_off_multiplier_at\<close>).
\<close>

record pci_config =
  cfg_status :: "16 word"
  capabilities_ptr :: "8 word"
  cap_at :: "nat \<Rightarrow> virtio_pci_cap"
  notify_off_multiplier_at :: "nat \<Rightarrow> 32 word"

definition PCI_STATUS_NEW_CAPS :: "16 word" where "PCI_STATUS_NEW_CAPS = 0x10"

text \<open>
  The members of \<^verbatim>\<open>Device\<close> that the modelled functions use: \<^verbatim>\<open>bar_\<close> is \<open>dev_bars\<close>,
  the fields of \<^verbatim>\<open>mmio_regs_\<close> carry the prefix \<open>regs_\<close>, and \<open>dev_map_calls\<close> logs the
  calls of \<^verbatim>\<open>pci_map_resource\<close>. \<^verbatim>\<open>Device::MapBar\<close> has no range check on its index, and
  the table is a function of the index here.
\<close>

record Device =
  dev_bars :: "nat \<Rightarrow> bar"
  regs_common_config :: uintptr_t
  regs_notify_base :: uintptr_t
  regs_notify_mul :: "32 word"
  regs_isr_status :: uintptr_t
  regs_device_config :: uintptr_t
  bar0_pio_base :: "32 word"
  dev_map_calls :: "nat list"

definition Device_new :: Device where
  "Device_new =
     \<lparr>dev_bars = (\<lambda>i. \<lparr>mmio_base = 0, mmio_handle = ZX_HANDLE_INVALID\<rparr>),
      regs_common_config = 0, regs_notify_base = 0, regs_notify_mul = 0, regs_isr_status = 0,
      regs_device_config = 0, bar0_pio_base = 0, dev_map_calls = []\<rparr>"

definition Device_MapBar :: "pci_protocol \<Rightarrow> 8 word \<Rightarrow> Device \<Rightarrow> zx_status_t \<times> Device" where
  "Device_MapBar pci i d =
     (if mmio_handle (dev_bars d (unat i)) \<noteq> ZX_HANDLE_INVALID then (ZX_OK, d)
      else
        (case pci_map_resource pci (PCI_RESOURCE_BAR_0 + unat i) of (r, base, handle) \<Rightarrow>
           (let d1 = d\<lparr>dev_map_calls := dev_map_calls d @ [PCI_RESOURCE_BAR_0 + unat i]\<rparr>
            in if r \<noteq> ZX_OK then (r, d1)
               else (ZX_OK, d1\<lparr>dev_bars := (dev_bars d1)(unat i := \<lparr>mmio_base = base, mmio_handle = handle\<rparr>)\<rparr>))))"

text \<open>
  The body of the capability walk for the record at \<open>off\<close>: the test for a vendor
  capability and the \<^verbatim>\<open>switch\<close>. The status of \<^verbatim>\<open>MapBar\<close> is not looked at.
\<close>

definition Bind_cap :: "pci_protocol \<Rightarrow> pci_config \<Rightarrow> nat \<Rightarrow> Device \<Rightarrow> Device" where
  "Bind_cap pci cfg off d =
     (let cap = cap_at cfg off
      in if cap_vndr cap = 0x9 then
           (let d1 = snd (Device_MapBar pci (cap_bar cap) d);
                addr = mmio_base (dev_bars d1 (unat (cap_bar cap))) + ucast (cap_offset cap)
            in if cfg_type cap = VIRTIO_PCI_CAP_COMMON_CFG then d1\<lparr>regs_common_config := addr\<rparr>
               else if cfg_type cap = VIRTIO_PCI_CAP_NOTIFY_CFG then
                 d1\<lparr>regs_notify_base := addr, regs_notify_mul := notify_off_multiplier_at cfg off\<rparr>
               else if cfg_type cap = VIRTIO_PCI_CAP_ISR_CFG then d1\<lparr>regs_isr_status := addr\<rparr>
               else if cfg_type cap = VIRTIO_PCI_CAP_DEVICE_CFG then d1\<lparr>regs_device_config := addr\<rparr>
               else d)
         else d)"

text \<open>
  The walk: \<^verbatim>\<open>for (int i = 0; i < 64; i++)\<close> with its early \<^verbatim>\<open>return\<close> and its
  \<^verbatim>\<open>break\<close>. The result is the status of an early return of \<^verbatim>\<open>Bind\<close> (\<open>None\<close> when
  the loop is left and \<^verbatim>\<open>Bind\<close> goes on), the device, and the number of iterations begun.
\<close>

function Bind_caps :: "pci_protocol \<Rightarrow> pci_config \<Rightarrow> nat \<Rightarrow> nat \<Rightarrow> Device \<Rightarrow> zx_status_t option \<times> Device \<times> nat" where
  "Bind_caps pci cfg i off d =
     (if i < 64 then
        (if off > PAGE_SIZE then (Some ZX_ERR_INVALID_ARGS, d, Suc i)
         else if cap_next (cap_at cfg off) = 0 then (None, Bind_cap pci cfg off d, Suc i)
         else Bind_caps pci cfg (Suc i) (unat (cap_next (cap_at cfg off))) (Bind_cap pci cfg off d))
      else (None, d, i))"
  by pat_completeness auto
termination
  by (relation "measure (\<lambda>(pci, cfg, i, off, d). 64 - i)") auto

declare Bind_caps.simps [simp del]

definition Bind_capabilities :: "pci_protocol \<Rightarrow> pci_config \<Rightarrow> Device \<Rightarrow> zx_status_t option \<times> Device \<times> nat" where
  "Bind_capabilities pci cfg d =
     (if cfg_status cfg AND PCI_STATUS_NEW_CAPS \<noteq> 0
      then Bind_caps pci cfg 0 (unat (capabilities_ptr cfg)) d
      else (None, d, 0))"

text \<open>
  \<^verbatim>\<open>mmiowrite<uint32_t>\<close> and \<^verbatim>\<open>mmiowrite<uint64_t>\<close> of this version.
\<close>

definition mmiowrite32 :: "uintptr_t \<Rightarrow> 32 word \<Rightarrow> hw \<Rightarrow> hw" where
  "mmiowrite32 ptr val h = write32 (Mmio ptr) val h"

definition mmiowrite64 :: "uintptr_t \<Rightarrow> 64 word \<Rightarrow> hw \<Rightarrow> hw" where
  "mmiowrite64 ptr val h =
     (let h1 = mmiowrite32 ptr (ucast (val AND 0xFFFFFFFF)) h
      in mmiowrite32 (ptr + 4) (ucast (drop_bit 32 val)) h1)"

text \<open>
  \<^verbatim>\<open>ReadConfigBar<uint8_t>\<close> and \<^verbatim>\<open>WriteConfigBar<uint8_t>\<close>: the port window when
  \<^verbatim>\<open>bar0_pio_base_\<close> is set, else BAR 0 in memory, else \<^verbatim>\<open>assert(0)\<close>, which is the
  result \<open>None\<close>.
\<close>

definition ReadConfigBar8 :: "Device \<Rightarrow> 16 word \<Rightarrow> hw \<Rightarrow> (8 word \<times> hw) option" where
  "ReadConfigBar8 d offset h =
     (if bar0_pio_base d \<noteq> 0 then Some (inp (ucast ((bar0_pio_base d + ucast offset) AND 0xffff)) h)
      else if mmio_base (dev_bars d 0) \<noteq> 0 then Some (read8 (Mmio (mmio_base (dev_bars d 0) + ucast offset)) h)
      else None)"

definition WriteConfigBar8 :: "Device \<Rightarrow> 16 word \<Rightarrow> 8 word \<Rightarrow> hw \<Rightarrow> hw option" where
  "WriteConfigBar8 d offset val h =
     (if bar0_pio_base d \<noteq> 0 then Some (outp (ucast ((bar0_pio_base d + ucast offset) AND 0xffff)) val h)
      else if mmio_base (dev_bars d 0) \<noteq> 0 then Some (write8 (Mmio (mmio_base (dev_bars d 0) + ucast offset)) val h)
      else None)"

definition Device_SetRing :: "Device \<Rightarrow> 16 word \<Rightarrow> 16 word \<Rightarrow> 64 word \<Rightarrow> 64 word \<Rightarrow> 64 word \<Rightarrow> hw \<Rightarrow> hw option" where
  "Device_SetRing d index count pa_desc pa_avail pa_used h =
     (if regs_common_config d = 0 then
        (if bar0_pio_base d \<noteq> 0 then
           (let h1 = outpw (ucast ((bar0_pio_base d + ucast VIRTIO_PCI_QUEUE_SELECT) AND 0xffff)) index h;
                h2 = outpw (ucast ((bar0_pio_base d + ucast VIRTIO_PCI_QUEUE_SIZE) AND 0xffff)) count h1
            in Some (outpd (ucast ((bar0_pio_base d + ucast VIRTIO_PCI_QUEUE_PFN) AND 0xffff))
                       (ucast (pa_desc div of_nat PAGE_SIZE)) h2))
         else if mmio_base (dev_bars d 0) \<noteq> 0 then
           (let h1 = write16 (Mmio (mmio_base (dev_bars d 0) + ucast VIRTIO_PCI_QUEUE_SELECT)) index h;
                h2 = write16 (Mmio (mmio_base (dev_bars d 0) + ucast VIRTIO_PCI_QUEUE_SIZE)) count h1
            in Some (write32 (Mmio (mmio_base (dev_bars d 0) + ucast VIRTIO_PCI_QUEUE_PFN))
                       (ucast (pa_desc div of_nat PAGE_SIZE)) h2))
         else None)
      else
        (let h1 = write16 (Mmio (regs_common_config d + off_queue_select)) index h;
             h2 = write16 (Mmio (regs_common_config d + off_queue_size)) count h1;
             h3 = mmiowrite64 (regs_common_config d + off_queue_desc) pa_desc h2;
             h4 = mmiowrite64 (regs_common_config d + off_queue_avail) pa_avail h3;
             h5 = mmiowrite64 (regs_common_config d + off_queue_used) pa_used h4
         in Some (write16 (Mmio (regs_common_config d + off_queue_enable)) 1 h5)))"

definition Device_StatusAcknowledgeDriver :: "Device \<Rightarrow> hw \<Rightarrow> hw option" where
  "Device_StatusAcknowledgeDriver d h =
     (if regs_common_config d = 0 then
        (case ReadConfigBar8 d VIRTIO_PCI_DEVICE_STATUS h of
           None \<Rightarrow> None
         | Some (val, h1) \<Rightarrow>
             WriteConfigBar8 d VIRTIO_PCI_DEVICE_STATUS
               (val OR (VIRTIO_STATUS_ACKNOWLEDGE OR VIRTIO_STATUS_DRIVER)) h1)
      else
        (case read8 (Mmio (regs_common_config d + off_device_status)) h of (val, h1) \<Rightarrow>
           Some (write8 (Mmio (regs_common_config d + off_device_status))
                   (val OR (VIRTIO_STATUS_ACKNOWLEDGE OR VIRTIO_STATUS_DRIVER)) h1)))"

definition Device_StatusFeaturesOK :: "Device \<Rightarrow> hw \<Rightarrow> (zx_status_t \<times> hw) option" where
  "Device_StatusFeaturesOK d h =
     (if regs_common_config d = 0 then
        (case ReadConfigBar8 d VIRTIO_PCI_DEVICE_STATUS h of
           None \<Rightarrow> None
         | Some (val, h1) \<Rightarrow>
             (case WriteConfigBar8 d VIRTIO_PCI_DEVICE_STATUS (val OR VIRTIO_STATUS_FEATURES_OK) h1 of
                None \<Rightarrow> None
              | Some h2 \<Rightarrow>
                  (case ReadConfigBar8 d VIRTIO_PCI_DEVICE_STATUS h2 of
                     None \<Rightarrow> None
                   | Some (val2, h3) \<Rightarrow>
                       Some (if val2 AND VIRTIO_STATUS_FEATURES_OK = 0 then ZX_ERR_NOT_SUPPORTED else ZX_OK,
                             h3))))
      else
        (case read8 (Mmio (regs_common_config d + off_device_status)) h of (val, h1) \<Rightarrow>
           (let h2 = write8 (Mmio (regs_common_config d + off_device_status))
                       (val OR VIRTIO_STATUS_FEATURES_OK) h1
            in case read8 (Mmio (regs_common_config d + off_device_status)) h2 of (val2, h3) \<Rightarrow>
                 Some (if val2 AND VIRTIO_STATUS_FEATURES_OK = 0 then ZX_ERR_NOT_SUPPORTED else ZX_OK,
                       h3))))"

definition Device_StatusDriverOK :: "Device \<Rightarrow> hw \<Rightarrow> hw option" where
  "Device_StatusDriverOK d h =
     (if regs_common_config d = 0 then
        (case ReadConfigBar8 d VIRTIO_PCI_DEVICE_STATUS h of
           None \<Rightarrow> None
         | Some (val, h1) \<Rightarrow>
             WriteConfigBar8 d VIRTIO_PCI_DEVICE_STATUS (val OR VIRTIO_STATUS_DRIVER_OK) h1)
      else
        (case read8 (Mmio (regs_common_config d + off_device_status)) h of (val, h1) \<Rightarrow>
           Some (write8 (Mmio (regs_common_config d + off_device_status))
                   (val OR VIRTIO_STATUS_DRIVER_OK) h1)))"

text \<open>
  The location of the device status register that the three status functions above
  use, by the same case distinction; \<open>None\<close> when the device has no register window.
\<close>

definition status_register :: "Device \<Rightarrow> location option" where
  "status_register d =
     (if regs_common_config d = 0 then
        (if bar0_pio_base d \<noteq> 0 then
           Some (Port (ucast ((bar0_pio_base d + ucast VIRTIO_PCI_DEVICE_STATUS) AND 0xffff)))
         else if mmio_base (dev_bars d 0) \<noteq> 0 then
           Some (Mmio (mmio_base (dev_bars d 0) + ucast VIRTIO_PCI_DEVICE_STATUS))
         else None)
      else Some (Mmio (regs_common_config d + off_device_status)))"

text \<open>
  Modelled from the spec: the bring-up sequence of the calling driver. The drivers that
  call the status functions are not part of the modelled sources. Section 4.3 of the
  specification gives the sequence after the reset: ACKNOWLEDGE and DRIVER, then (after
  the feature negotiation, which is external) FEATURES_OK with the re-read, whose
  rejection "is reported as not-supported and aborts bring-up", then DRIVER_OK.
\<close>

definition bring_up :: "Device \<Rightarrow> hw \<Rightarrow> (zx_status_t \<times> hw) option" where
  "bring_up d h =
     (case Device_StatusAcknowledgeDriver d h of
        None \<Rightarrow> None
      | Some h1 \<Rightarrow>
          (case Device_StatusFeaturesOK d h1 of
             None \<Rightarrow> None
           | Some (st, h2) \<Rightarrow>
               if st \<noteq> ZX_OK then Some (st, h2)
               else (case Device_StatusDriverOK d h2 of
                       None \<Rightarrow> None
                     | Some h3 \<Rightarrow> Some (ZX_OK, h3))))"

section \<open>The interrupt worker of the refactored device core (\<^verbatim>\<open>device.cpp\<close>, second version)\<close>

text \<open>
  What \<^verbatim>\<open>Device::IrqWorker\<close> does is a sequence of calls: the wait, the read of the ISR
  status through the backend, the completion, and the two callbacks of the derived
  driver. A wake is what the environment answers in one iteration: the status of
  \<^verbatim>\<open>zx_interrupt_wait\<close>, the value returned by \<^verbatim>\<open>IsrStatus()\<close>, and the status of
  \<^verbatim>\<open>zx_interrupt_complete\<close> (the last two are not asked for when the call before fails).
\<close>

datatype irq_event = InterruptWait | ReadIsrStatus | InterruptComplete | IrqRingUpdate | IrqConfigChange

record wake =
  wait_rc :: zx_status_t
  isr_value :: "32 word"
  complete_rc :: zx_status_t

definition IrqWorker_iteration :: "wake \<Rightarrow> irq_event list" where
  "IrqWorker_iteration w =
     (if wait_rc w \<noteq> ZX_OK then [InterruptWait]
      else if complete_rc w \<noteq> ZX_OK then [InterruptWait, ReadIsrStatus, InterruptComplete]
      else if isr_value w = 0 then [InterruptWait, ReadIsrStatus, InterruptComplete]
      else [InterruptWait, ReadIsrStatus, InterruptComplete]
           @ (if isr_value w AND VIRTIO_ISR_QUEUE_INT \<noteq> 0 then [IrqRingUpdate] else [])
           @ (if isr_value w AND VIRTIO_ISR_DEV_CFG_INT \<noteq> 0 then [IrqConfigChange] else []))"

text \<open>
  The loop \<^verbatim>\<open>while (backend_->irq_handle())\<close> over the wakes that arrive while the
  handle is valid; the end of the list is the release of the handle.
\<close>

fun IrqWorker :: "wake list \<Rightarrow> irq_event list" where
  "IrqWorker [] = []"
| "IrqWorker (w # ws) = IrqWorker_iteration w @ IrqWorker ws"

section \<open>Inputs used in the examples\<close>

text \<open>A register file of zeros whose 8-bit registers latch what is written.\<close>

definition plain_hw :: hw where
  "plain_hw = \<lparr>reg8 = (\<lambda>l. 0), reg16 = (\<lambda>l. 0), reg32 = (\<lambda>l. 0), latch8 = (\<lambda>l v. v), trace = []\<rparr>"

text \<open>The same, of a device that never latches FEATURES_OK.\<close>

definition rejecting_hw :: hw where
  "rejecting_hw = plain_hw\<lparr>latch8 := (\<lambda>l v. v AND NOT VIRTIO_STATUS_FEATURES_OK)\<rparr>"

text \<open>
  A configuration space whose capabilities pointer leads to four vendor capabilities at
  0x40, 0x54, 0x68 and 0x7c (common, notify with multiplier 4, ISR, device), all in BAR 0,
  which maps at 0xfe000000.
\<close>

definition example_pci :: pci_protocol where
  "example_pci =
     \<lparr>pci_get_next_capability =
        (\<lambda>off. if off = 0x33 then 0x40 else if off = 0x40 then 0x54 else if off = 0x54 then 0x68
                else if off = 0x68 then 0x7c else 0),
      pci_config_read8 =
        (\<lambda>a. if a = 0x43 then 1 else if a = 0x57 then 2 else if a = 0x6b then 3 else if a = 0x7f then 4 else 0),
      pci_config_read32 =
        (\<lambda>a. if a = 0x48 then 0x1000 else if a = 0x5c then 0x2000 else if a = 0x64 then 4
              else if a = 0x70 then 0x3000 else if a = 0x84 then 0x4000 else 0),
      pci_map_resource = (\<lambda>i. (ZX_OK, 0xfe000000, 7))\<rparr>"

text \<open>The backend that \<^verbatim>\<open>Init\<close> makes of it.\<close>

definition example_backend :: PciModernBackend where
  "example_backend =
     \<lparr>bars = (\<lambda>i. \<lparr>mmio_base = 0, mmio_handle = ZX_HANDLE_INVALID\<rparr>)
               (0 := \<lparr>mmio_base = 0xfe000000, mmio_handle = 7\<rparr>),
      notify_base = 0xfe002000, isr_status = 0xfe003000, device_cfg = 0xfe004000,
      common_cfg = 0xfe001000, notify_off_mul = 4, map_calls = [0]\<rparr>"

text \<open>
  A cyclic capability list: the only record, at 0x40, has \<^verbatim>\<open>cap_next\<close> 0x40. First as
  the bus layer's accessor presents it, then as mapped configuration space.
\<close>

definition cyclic_pci :: pci_protocol where
  "cyclic_pci =
     \<lparr>pci_get_next_capability = (\<lambda>off. 0x40),
      pci_config_read8 = (\<lambda>a. if a = 0x40 then 0x9 else if a = 0x41 then 0x40 else if a = 0x43 then 5 else 0),
      pci_config_read32 = (\<lambda>a. 0),
      pci_map_resource = (\<lambda>i. (ZX_OK, 0xfe000000, 7))\<rparr>"

definition cyclic_config :: pci_config where
  "cyclic_config =
     \<lparr>cfg_status = 0x10, capabilities_ptr = 0x40,
      cap_at = (\<lambda>off. \<lparr>cap_vndr = 0x9, cap_next = 0x40, cap_len = 16, cfg_type = 5,
                        cap_bar = 0, cap_offset = 0, cap_length = 0\<rparr>),
      notify_off_multiplier_at = (\<lambda>off. 0)\<rparr>"

text \<open>
  A device that presents the largest queue notify offset and a notify multiplier of
  0x10002: the backend made of the example with that multiplier, and the registers with
  \<^verbatim>\<open>queue_notify_off\<close> (at 0xfe00101e) reading 0xffff.
\<close>

definition wide_backend :: PciModernBackend where
  "wide_backend = example_backend\<lparr>notify_off_mul := 0x10002\<rparr>"

definition wide_hw :: hw where
  "wide_hw = plain_hw\<lparr>reg16 := (reg16 plain_hw)(Mmio 0xfe00101e := 0xffff)\<rparr>"

definition legacy_example :: PciLegacyBackend where
  "legacy_example = \<lparr>bar0_base = 0xc000, device_cfg_offset = 0xc014\<rparr>"

definition modern_device :: Device where
  "modern_device = Device_new\<lparr>regs_common_config := 0xfe001000\<rparr>"

section \<open>Properties of the register access primitives\<close>

lemma low_half_mask: "(ucast (v AND 0xFFFFFFFF) :: 32 word) = ucast (v :: 64 word)"
proof -
  have m: "(0xFFFFFFFF :: 64 word) = mask 32"
    by (simp add: mask_eq_exp_minus_1)
  show ?thesis
    unfolding m by (rule bit_word_eqI) (auto simp: bit_simps)
qed

lemma halves_join:
  "(ucast (ucast v :: 32 word) :: 64 word) OR push_bit 32 (ucast (ucast (drop_bit 32 v) :: 32 word)) = (v :: 64 word)"
  by (rule bit_word_eqI) (auto simp: bit_simps)

text \<open>
  C3. For every 64-bit value \<open>v\<close> the split 64-bit write, in the backend
  (\<^verbatim>\<open>MmioWrite\<close>) and in the pre-refactor device core (\<^verbatim>\<open>mmiowrite<uint64_t>\<close>) alike,
  is exactly two 32-bit writes, the low 32 bits of \<open>v\<close> to the word at \<open>addr\<close> first and
  the high 32 bits to the word at \<open>addr + 4\<close> second, and the split 64-bit read of the
  same place then returns \<open>v\<close>.
\<close>

theorem MmioWrite64_split_roundtrip:
  "trace (MmioWrite64 addr v h) =
     trace h @ [Write32 (Mmio addr) (ucast v), Write32 (Mmio (addr + 4)) (ucast (drop_bit 32 v))]
   \<and> fst (MmioRead64 addr (MmioWrite64 addr v h)) = v
   \<and> trace (mmiowrite64 addr v h) =
     trace h @ [Write32 (Mmio addr) (ucast v), Write32 (Mmio (addr + 4)) (ucast (drop_bit 32 v))]
   \<and> fst (MmioRead64 addr (mmiowrite64 addr v h)) = v"
  by (simp add: MmioWrite64_def MmioRead64_def mmiowrite64_def mmiowrite32_def write32_def
      read32_def Let_def low_half_mask halves_join)

text \<open>The three values that the specification names, at the queue descriptor register.\<close>

theorem MmioWrite64_split_roundtrip_witness:
  "fst (MmioRead64 0xfe001020 (MmioWrite64 0xfe001020 0 plain_hw)) = 0
   \<and> fst (MmioRead64 0xfe001020 (MmioWrite64 0xfe001020 0xFFFFFFFFFFFFFFFF plain_hw)) = 0xFFFFFFFFFFFFFFFF
   \<and> fst (MmioRead64 0xfe001020 (MmioWrite64 0xfe001020 0x0000000100000002 plain_hw)) = 0x0000000100000002
   \<and> trace (MmioWrite64 0xfe001020 0x0000000100000002 plain_hw) =
       [Write32 (Mmio 0xfe001020) 2, Write32 (Mmio 0xfe001024) 1]
   \<and> fst (MmioRead64 0xfe001020 (mmiowrite64 0xfe001020 0 plain_hw)) = 0
   \<and> fst (MmioRead64 0xfe001020 (mmiowrite64 0xfe001020 0xFFFFFFFFFFFFFFFF plain_hw)) = 0xFFFFFFFFFFFFFFFF
   \<and> fst (MmioRead64 0xfe001020 (mmiowrite64 0xfe001020 0x0000000100000002 plain_hw)) = 0x0000000100000002
   \<and> trace (mmiowrite64 0xfe001020 0x0000000100000002 plain_hw) =
       [Write32 (Mmio 0xfe001020) 2, Write32 (Mmio 0xfe001024) 1]"
  using MmioWrite64_split_roundtrip [of "0xfe001020" 0 plain_hw]
    MmioWrite64_split_roundtrip [of "0xfe001020" "0xFFFFFFFFFFFFFFFF" plain_hw]
    MmioWrite64_split_roundtrip [of "0xfe001020" "0x0000000100000002" plain_hw]
  by (simp add: plain_hw_def drop_bit_eq_div)

lemma writes_append: "writes (xs @ ys) = writes xs @ writes ys"
  by (simp add: writes_def)

section \<open>Capability discovery\<close>

lemma Init_loop_ends: "list_ends n pci off \<Longrightarrow> \<exists>s1. Init_loop pci off s = Some s1"
proof (induction n arbitrary: off s)
  case 0
  then show ?case by (simp add: Init_loop.simps)
next
  case (Suc n)
  show ?case
  proof (cases "off = 0")
    case True
    then show ?thesis by (simp add: Init_loop.simps)
  next
    case False
    with Suc.prems have "list_ends n pci (pci_get_next_capability pci off)" by simp
    from Suc.IH [OF this, of "Init_body pci off s"] False show ?thesis
      by (subst Init_loop.simps) simp
  qed
qed

lemma Init_loop_returns_ends:
  "Init_loop pci off s = Some s1 \<Longrightarrow> \<exists>n. list_ends n pci off"
proof (rule Init_loop.raw_induct [where P = "\<lambda>pci off s s1. \<exists>n. list_ends n pci off"])
  fix f pci off s s1
  assume IH: "\<And>pci off s s1. f pci off s = Some s1 \<Longrightarrow> \<exists>n. list_ends n pci off"
    and st: "(if off = 0 then Some s else f pci (pci_get_next_capability pci off) (Init_body pci off s)) = Some s1"
  show "\<exists>n. list_ends n pci off"
  proof (cases "off = 0")
    case True
    then have "list_ends 0 pci off" by simp
    then show ?thesis ..
  next
    case False
    with st have "f pci (pci_get_next_capability pci off) (Init_body pci off s) = Some s1" by simp
    from IH [OF this] obtain n where "list_ends n pci (pci_get_next_capability pci off)" ..
    with False have "list_ends (Suc n) pci off" by simp
    then show ?thesis ..
  qed
qed

lemma Init_returns_iff:
  "(\<exists>r. Init pci s = Some r) = (\<exists>n. list_ends n pci (pci_get_first_capability pci))"
proof
  assume "\<exists>r. Init pci s = Some r"
  then obtain s1 where "Init_loop pci (pci_get_first_capability pci) s = Some s1"
    by (auto simp: Init_def split: option.splits)
  then show "\<exists>n. list_ends n pci (pci_get_first_capability pci)"
    by (rule Init_loop_returns_ends)
next
  assume "\<exists>n. list_ends n pci (pci_get_first_capability pci)"
  then obtain n where "list_ends n pci (pci_get_first_capability pci)" ..
  from Init_loop_ends [OF this, of s] show "\<exists>r. Init pci s = Some r"
    by (auto simp: Init_def)
qed

lemma cyclic_never_ends: "off \<noteq> 0 \<Longrightarrow> \<not> list_ends n cyclic_pci off"
  by (induction n arbitrary: off) (simp_all add: cyclic_pci_def)

lemma Bind_caps_bounded:
  "i \<le> 64 \<Longrightarrow> off \<le> 255 \<Longrightarrow>
   fst (Bind_caps pci cfg i off d) = None \<and> snd (snd (Bind_caps pci cfg i off d)) \<le> 64"
proof (induction pci cfg i off d rule: Bind_caps.induct)
  case (1 pci cfg i off d)
  show ?case
  proof (cases "i < 64")
    case False
    with "1.prems" show ?thesis by (subst (1 2) Bind_caps.simps) simp
  next
    case True
    note lt = this
    have small: "\<not> off > PAGE_SIZE" using "1.prems" by (simp add: PAGE_SIZE_def)
    show ?thesis
    proof (cases "cap_next (cap_at cfg off) = 0")
      case True
      with lt small show ?thesis by (subst (1 2) Bind_caps.simps) simp
    next
      case False
      have u: "unat (cap_next (cap_at cfg off)) \<le> 255"
        using unsigned_less [of "cap_next (cap_at cfg off)", where 'a = nat] by simp
      from lt have "Suc i \<le> 64" by simp
      from "1.IH" [OF lt small False this u] lt small False show ?thesis
        by (subst (1 2) Bind_caps.simps) simp
    qed
  qed
qed

lemma cyclic_walk: "i \<le> 64 \<Longrightarrow> Bind_caps pci cyclic_config i 0x40 Device_new = (None, Device_new, 64)"
proof (induction "64 - i" arbitrary: i)
  case 0
  then show ?case by (subst Bind_caps.simps) simp
next
  case (Suc k)
  then have lt: "i < 64" and k: "k = 64 - Suc i" and le: "Suc i \<le> 64" by simp_all
  have b: "Bind_cap pci cyclic_config 0x40 Device_new = Device_new"
    by (simp add: Bind_cap_def cyclic_config_def Let_def VIRTIO_PCI_CAP_COMMON_CFG_def
        VIRTIO_PCI_CAP_NOTIFY_CFG_def VIRTIO_PCI_CAP_ISR_CFG_def VIRTIO_PCI_CAP_DEVICE_CFG_def)
  have n: "cap_next (cap_at cyclic_config 0x40) = 0x40"
    by (simp add: cyclic_config_def)
  from Suc.hyps(1) [OF k le] lt b n show ?case
    by (subst Bind_caps.simps) (simp add: PAGE_SIZE_def)
qed

lemma example_ends:
  "list_ends (Suc (Suc (Suc (Suc 0)))) example_pci (pci_get_first_capability example_pci)"
  by (simp add: example_pci_def pci_get_first_capability_def kPciCfgCapabilitiesPtr_def)

text \<open>
  The capability walk of \<^verbatim>\<open>Device::Bind\<close> begins at most 64 iterations on every
  capability list and leaves the loop without an early return.
\<close>

lemma Bind_walk_bounded:
  "fst (Bind_capabilities pci cfg d) = None \<and> snd (snd (Bind_capabilities pci cfg d)) \<le> 64"
proof -
  have u: "unat (capabilities_ptr cfg) \<le> 255"
    using unsigned_less [of "capabilities_ptr cfg", where 'a = nat] by simp
  show ?thesis
    using Bind_caps_bounded [OF _ u, of 0 pci cfg d] by (simp add: Bind_capabilities_def)
qed

text \<open>
  C1 (what the code does). On a cyclic capability list, whose only record at 0x40 has
  0x40 as its next offset, \<^verbatim>\<open>PciModernBackend::Init\<close> never returns: its loop has no
  bound on the number of iterations. The walk of \<^verbatim>\<open>Device::Bind\<close> over the same list
  stops after its 64 iterations.
\<close>

theorem Init_cyclic_list_never_returns:
  "Init cyclic_pci (PciModernBackend_new 0) = None
   \<and> Bind_capabilities cyclic_pci cyclic_config Device_new = (None, Device_new, 64)"
proof -
  have "\<not> (\<exists>n. list_ends n cyclic_pci (pci_get_first_capability cyclic_pci))"
    using cyclic_never_ends [of "0x40"] by (simp add: cyclic_pci_def pci_get_first_capability_def)
  then have "Init cyclic_pci (PciModernBackend_new 0) = None"
    using Init_returns_iff [of cyclic_pci "PciModernBackend_new 0"]
    by (cases "Init cyclic_pci (PciModernBackend_new 0)") auto
  moreover have "Bind_capabilities cyclic_pci cyclic_config Device_new = (None, Device_new, 64)"
    using cyclic_walk [of 0 cyclic_pci]
    by (simp add: Bind_capabilities_def) (simp add: cyclic_config_def PCI_STATUS_NEW_CAPS_def)
  ultimately show ?thesis by simp
qed

text \<open>
  C2. When the capability list is exhausted (the chain of offsets reaches 0),
  \<^verbatim>\<open>PciModernBackend::Init\<close> returns, and its status is \<^verbatim>\<open>ZX_ERR_BAD_STATE\<close> exactly
  when one of the common-config, ISR-status, device-config and notify-base addresses is
  unresolved (null), and \<^verbatim>\<open>ZX_OK\<close> exactly when all four are resolved.
\<close>

theorem Init_missing_capability:
  assumes "list_ends n pci (pci_get_first_capability pci)"
  shows "\<exists>st s1. Init pci s = Some (st, s1)
           \<and> (st = ZX_OK \<or> st = ZX_ERR_BAD_STATE)
           \<and> (st = ZX_ERR_BAD_STATE) =
               (common_cfg s1 = 0 \<or> isr_status s1 = 0 \<or> device_cfg s1 = 0 \<or> notify_base s1 = 0)
           \<and> (st = ZX_OK) =
               (common_cfg s1 \<noteq> 0 \<and> isr_status s1 \<noteq> 0 \<and> device_cfg s1 \<noteq> 0 \<and> notify_base s1 \<noteq> 0)"
proof -
  from Init_loop_ends [OF assms] obtain s1
    where "Init_loop pci (pci_get_first_capability pci) s = Some s1" by blast
  then have "Init pci s = Some (Init_check s1, s1)"
    by (simp add: Init_def)
  then show ?thesis
    by (auto simp: Init_check_def ZX_OK_def ZX_ERR_BAD_STATE_def)
qed

text \<open>
  On the configuration space with the four capabilities \<^verbatim>\<open>Init\<close> resolves all four
  addresses and returns \<^verbatim>\<open>ZX_OK\<close>; on an empty list it returns \<^verbatim>\<open>ZX_ERR_BAD_STATE\<close>.
\<close>

lemma Init_example:
  "Init example_pci (PciModernBackend_new 0) = Some (ZX_OK, example_backend)"
  by (simp add: Init_def example_pci_def pci_get_first_capability_def kPciCfgCapabilitiesPtr_def
      Init_loop.simps Init_body_def ReadVirtioCap_def
      CommonCfgCallback_def NotifyCfgCallback_def IsrCfgCallback_def DeviceCfgCallback_def
      MapBar_def PciModernBackend_new_def Init_check_def ZX_OK_def ZX_HANDLE_INVALID_def
      PCI_RESOURCE_BAR_0_def VIRTIO_PCI_CAP_COMMON_CFG_def VIRTIO_PCI_CAP_NOTIFY_CFG_def
      VIRTIO_PCI_CAP_ISR_CFG_def VIRTIO_PCI_CAP_DEVICE_CFG_def VIRTIO_PCI_CAP_PCI_CFG_def
      example_backend_def)

lemma Init_empty_list:
  "Init (example_pci\<lparr>pci_get_next_capability := (\<lambda>off. 0)\<rparr>) (PciModernBackend_new 0) =
     Some (ZX_ERR_BAD_STATE, PciModernBackend_new 0)"
  by (simp add: Init_def pci_get_first_capability_def Init_loop.simps Init_check_def
      PciModernBackend_new_def)

theorem Init_missing_capability_witness:
  "list_ends (Suc (Suc (Suc (Suc 0)))) example_pci (pci_get_first_capability example_pci)
   \<and> (\<exists>st s1. Init example_pci (PciModernBackend_new 0) = Some (st, s1)
           \<and> (st = ZX_OK \<or> st = ZX_ERR_BAD_STATE)
           \<and> (st = ZX_ERR_BAD_STATE) =
               (common_cfg s1 = 0 \<or> isr_status s1 = 0 \<or> device_cfg s1 = 0 \<or> notify_base s1 = 0)
           \<and> (st = ZX_OK) =
               (common_cfg s1 \<noteq> 0 \<and> isr_status s1 \<noteq> 0 \<and> device_cfg s1 \<noteq> 0 \<and> notify_base s1 \<noteq> 0))"
  using example_ends Init_missing_capability [OF example_ends, of "PciModernBackend_new 0"] by simp

text \<open>
  C9. For a BAR index below 6, after a first call of \<^verbatim>\<open>MapBar\<close> that returned
  \<^verbatim>\<open>ZX_OK\<close>, a second call with the same index returns \<^verbatim>\<open>ZX_OK\<close> and leaves the
  backend as it is: the stored base address is the same and the log of calls of
  \<^verbatim>\<open>pci_map_resource\<close> has not grown. The bus-mapping primitive is taken to keep its
  contract that a mapping it reports as successful comes with a valid handle.
\<close>

theorem MapBar_idempotent:
  assumes "unat b < 6"
    and "MapBar pci b s = (ZX_OK, s1)"
    and "fst (pci_map_resource pci (PCI_RESOURCE_BAR_0 + unat b)) = ZX_OK \<longrightarrow>
         snd (snd (pci_map_resource pci (PCI_RESOURCE_BAR_0 + unat b))) \<noteq> ZX_HANDLE_INVALID"
  shows "MapBar pci b s1 = (ZX_OK, s1)
       \<and> mmio_base (bars (snd (MapBar pci b s1)) (unat b)) = mmio_base (bars s1 (unat b))
       \<and> map_calls (snd (MapBar pci b s1)) = map_calls s1"
proof -
  from assms have "MapBar pci b s1 = (ZX_OK, s1)"
    by (auto simp: MapBar_def Let_def split: if_splits prod.splits)
  then show ?thesis by simp
qed

lemma MapBar_example:
  "MapBar example_pci 0 (PciModernBackend_new 0) =
     (ZX_OK, (PciModernBackend_new 0)
        \<lparr>map_calls := [0], bars := (bars (PciModernBackend_new 0))(0 := \<lparr>mmio_base = 0xfe000000, mmio_handle = 7\<rparr>)\<rparr>)"
  by (simp add: MapBar_def example_pci_def PciModernBackend_new_def ZX_HANDLE_INVALID_def
      ZX_OK_def PCI_RESOURCE_BAR_0_def)

theorem MapBar_idempotent_witness:
  "unat (0 :: 8 word) < 6
   \<and> fst (MapBar example_pci 0 (PciModernBackend_new 0)) = ZX_OK
   \<and> MapBar example_pci 0 (snd (MapBar example_pci 0 (PciModernBackend_new 0))) =
       (ZX_OK, snd (MapBar example_pci 0 (PciModernBackend_new 0)))
   \<and> map_calls (snd (MapBar example_pci 0 (snd (MapBar example_pci 0 (PciModernBackend_new 0))))) = [0]"
proof -
  have c: "fst (pci_map_resource example_pci (PCI_RESOURCE_BAR_0 + unat (0 :: 8 word))) = ZX_OK \<longrightarrow>
           snd (snd (pci_map_resource example_pci (PCI_RESOURCE_BAR_0 + unat (0 :: 8 word)))) \<noteq> ZX_HANDLE_INVALID"
    by (simp add: example_pci_def ZX_HANDLE_INVALID_def)
  have l: "unat (0 :: 8 word) < 6" by simp
  show ?thesis
    using MapBar_idempotent [OF l MapBar_example c] MapBar_example by simp
qed

section \<open>Ring setup and notification\<close>

lemma product_fits:
  assumes "unat (q :: 16 word) * unat (m :: 32 word) < 2 ^ 32"
  shows "(ucast ((ucast q :: 32 word) * m) :: 64 word) = of_nat (unat q * unat m)"
proof -
  have q: "unat (ucast q :: 32 word) = unat q"
    by (simp add: unsigned_ucast_eq take_bit_nat_eq_self unsigned_less [of q, THEN less_trans])
  have "unat (ucast q :: 32 word) * unat m < 2 ^ LENGTH(32)"
    using assms q by simp
  then have "unat ((ucast q :: 32 word) * m) = unat q * unat m"
    using q by (simp add: unat_mult_lem [THEN iffD1])
  then have "of_nat (unat ((ucast q :: 32 word) * m)) = (of_nat (unat q * unat m) :: 64 word)"
    by simp
  then show ?thesis
    by simp
qed

lemma product_wraps:
  "(ucast ((ucast (q :: 16 word) :: 32 word) * (m :: 32 word)) :: 64 word)
     = of_nat ((unat q * unat m) mod 2 ^ 32)"
proof -
  have q: "unat (ucast q :: 32 word) = unat q"
    by (simp add: unsigned_ucast_eq take_bit_nat_eq_self unsigned_less [of q, THEN less_trans])
  have "unat ((ucast q :: 32 word) * m) = (unat q * unat m) mod 2 ^ 32"
    using q by (simp add: unat_word_ariths)
  then have "of_nat (unat ((ucast q :: 32 word) * m)) = (of_nat ((unat q * unat m) mod 2 ^ 32) :: 64 word)"
    by simp
  then show ?thesis
    by simp
qed

text \<open>
  C4, as amended. \<^verbatim>\<open>RingKick\<close> of the modern backend writes the 16-bit ring index to
  \<open>notify_base + (queue_notify_off * notify_off_mul) mod 2 ^ 32\<close>, where
  \<open>queue_notify_off\<close> is what the common-config register reads: the product is computed
  in 32-bit unsigned arithmetic and wraps before it is added to the 64-bit base. It is
  the product of the two numbers whenever that is below \<open>2 ^ 32\<close>. With
  \<open>queue_notify_off = 5\<close> and multiplier 4, \<^verbatim>\<open>RingKick(2)\<close> writes 2 to
  \<open>notify_base + 20\<close>.
\<close>

theorem RingKick_notify_address:
  assumes "reg16 h (Mmio (common_cfg b + off_queue_notify_off)) = q"
  shows "writes (trace (RingKick b ring_index h)) =
           writes (trace h) @
             [Write16 (Mmio (notify_base b + of_nat ((unat q * unat (notify_off_mul b)) mod 2 ^ 32))) ring_index]
       \<and> (q = 5 \<and> notify_off_mul b = 4 \<longrightarrow>
            writes (trace (RingKick b 2 h)) = writes (trace h) @ [Write16 (Mmio (notify_base b + 20)) 2])
       \<and> (unat q * unat (notify_off_mul b) < 2 ^ 32 \<longrightarrow>
            writes (trace (RingKick b ring_index h)) =
              writes (trace h) @ [Write16 (Mmio (notify_base b + of_nat (unat q * unat (notify_off_mul b)))) ring_index])"
proof -
  have w: "writes (trace (RingKick b ring_index h)) =
           writes (trace h) @
             [Write16 (Mmio (notify_base b + ucast ((ucast q :: 32 word) * notify_off_mul b))) ring_index]"
    for ring_index
    using assms
    by (simp add: RingKick_def MmioRead16_def read16_def write16_def writes_def Let_def)
  show ?thesis
    by (auto simp: w product_fits) (simp add: product_wraps)
qed

theorem RingKick_notify_address_witness:
  "reg16 (plain_hw\<lparr>reg16 := (reg16 plain_hw)(Mmio 0xfe00101e := 5)\<rparr>)
       (Mmio (common_cfg example_backend + off_queue_notify_off)) = 5
   \<and> notify_off_mul example_backend = 4
   \<and> unat (5 :: 16 word) * unat (notify_off_mul example_backend) < 2 ^ 32
   \<and> writes (trace (RingKick example_backend 2 (plain_hw\<lparr>reg16 := (reg16 plain_hw)(Mmio 0xfe00101e := 5)\<rparr>))) =
       [Write16 (Mmio 0xfe002014) 2]"
proof -
  have q: "reg16 (plain_hw\<lparr>reg16 := (reg16 plain_hw)(Mmio 0xfe00101e := 5)\<rparr>)
             (Mmio (common_cfg example_backend + off_queue_notify_off)) = 5"
    by (simp add: example_backend_def off_queue_notify_off_def)
  have m: "notify_off_mul example_backend = 4"
    by (simp add: example_backend_def)
  have t: "writes (trace (plain_hw\<lparr>reg16 := (reg16 plain_hw)(Mmio 0xfe00101e := 5)\<rparr>)) = []"
    by (simp add: plain_hw_def writes_def)
  have n: "notify_base example_backend + 20 = 0xfe002014"
    by (simp add: example_backend_def)
  show ?thesis
    using RingKick_notify_address [OF q, of 2] q m t n by simp
qed

text \<open>
  C4, as stated, fails when the product does not fit 32 bits: with \<open>queue_notify_off\<close>
  0xffff and multiplier 0x10002 the product is 0x10000fffe, and \<^verbatim>\<open>RingKick\<close> writes at
  \<open>notify_base + 0xfffe\<close>.
\<close>

theorem RingKick_wide_product_counterexample:
  "reg16 wide_hw (Mmio (common_cfg wide_backend + off_queue_notify_off)) = 0xffff
   \<and> notify_off_mul wide_backend = 0x10002
   \<and> writes (trace (RingKick wide_backend 2 wide_hw)) =
       [Write16 (Mmio (notify_base wide_backend + 0xfffe)) 2]
   \<and> writes (trace (RingKick wide_backend 2 wide_hw)) \<noteq>
       [Write16 (Mmio (notify_base wide_backend + 0xffff * 0x10002)) 2]"
  by (simp add: RingKick_def MmioRead16_def read16_def write16_def writes_def Let_def
      wide_backend_def wide_hw_def example_backend_def plain_hw_def off_queue_notify_off_def)

text \<open>
  C5 (what the code does). \<^verbatim>\<open>PciModernBackend::SetRing\<close> writes queue-select,
  queue-size, the descriptor, available and used addresses (each as two 32-bit writes),
  then the descriptor address a second time, and only then queue-enable: two writes more
  than the sequence of the claim, between the used address and queue-enable.
\<close>

theorem SetRing_write_sequence:
  "writes (trace (SetRing b index count pa_desc pa_avail pa_used h)) =
     writes (trace h) @
       [Write16 (Mmio (common_cfg b + off_queue_select)) index,
        Write16 (Mmio (common_cfg b + off_queue_size)) count,
        Write32 (Mmio (common_cfg b + off_queue_desc)) (ucast pa_desc),
        Write32 (Mmio (common_cfg b + off_queue_desc + 4)) (ucast (drop_bit 32 pa_desc)),
        Write32 (Mmio (common_cfg b + off_queue_avail)) (ucast pa_avail),
        Write32 (Mmio (common_cfg b + off_queue_avail + 4)) (ucast (drop_bit 32 pa_avail)),
        Write32 (Mmio (common_cfg b + off_queue_used)) (ucast pa_used),
        Write32 (Mmio (common_cfg b + off_queue_used + 4)) (ucast (drop_bit 32 pa_used)),
        Write32 (Mmio (common_cfg b + off_queue_desc)) (ucast pa_desc),
        Write32 (Mmio (common_cfg b + off_queue_desc + 4)) (ucast (drop_bit 32 pa_desc)),
        Write16 (Mmio (common_cfg b + off_queue_enable)) 1]"
  by (simp add: SetRing_def MmioWrite16_def MmioWrite64_def write16_def write32_def writes_def
      Let_def low_half_mask)

text \<open>
  The modern path of the pre-refactor \<^verbatim>\<open>Device::SetRing\<close> issues the sequence of the
  claim, with queue-enable right after the used address.
\<close>

lemma Device_modern_path_ring_setup:
  assumes "regs_common_config d \<noteq> 0"
  shows "\<exists>h1. Device_SetRing d index count pa_desc pa_avail pa_used h = Some h1
     \<and> writes (trace h1) =
       writes (trace h) @
         [Write16 (Mmio (regs_common_config d + off_queue_select)) index,
          Write16 (Mmio (regs_common_config d + off_queue_size)) count,
          Write32 (Mmio (regs_common_config d + off_queue_desc)) (ucast pa_desc),
          Write32 (Mmio (regs_common_config d + off_queue_desc + 4)) (ucast (drop_bit 32 pa_desc)),
          Write32 (Mmio (regs_common_config d + off_queue_avail)) (ucast pa_avail),
          Write32 (Mmio (regs_common_config d + off_queue_avail + 4)) (ucast (drop_bit 32 pa_avail)),
          Write32 (Mmio (regs_common_config d + off_queue_used)) (ucast pa_used),
          Write32 (Mmio (regs_common_config d + off_queue_used + 4)) (ucast (drop_bit 32 pa_used)),
          Write16 (Mmio (regs_common_config d + off_queue_enable)) 1]"
  using assms
  by (simp add: Device_SetRing_def mmiowrite64_def mmiowrite32_def write16_def write32_def
      writes_def Let_def low_half_mask)

text \<open>
  The legacy ring setup of the specification's example: 3 to queue-select, 256 to
  queue-size, then the page frame number of the descriptor table to the PFN register.
\<close>

lemma Legacy_ring_setup_example:
  "writes (trace (Legacy_SetRing legacy_example 3 256 0x10000 pa_avail pa_used plain_hw)) =
     [Write16 (Port 0xc00e) 3, Write16 (Port 0xc00c) 256, Write32 (Port 0xc008) 0x10]"
  by (simp add: Legacy_SetRing_def legacy_example_def outpw_def outpd_def write16_def write32_def
      writes_def plain_hw_def Let_def VIRTIO_PCI_QUEUE_SELECT_def VIRTIO_PCI_QUEUE_SIZE_def
      VIRTIO_PCI_QUEUE_PFN_def word_div_def)

section \<open>Device status\<close>

text \<open>
  C6 (what the code does). After \<^verbatim>\<open>DeviceReset\<close> on a device whose status register
  stores what is written, \<^verbatim>\<open>DriverStatusAck\<close> of the modern backend leaves the register
  at ACKNOWLEDGE alone: the DRIVER bit is clear.
\<close>

theorem Modern_DriverStatusAck_misses_DRIVER:
  "reg8 (DriverStatusAck b (DeviceReset b plain_hw)) (Mmio (common_cfg b + off_device_status))
     = VIRTIO_STATUS_ACKNOWLEDGE
   \<and> VIRTIO_STATUS_ACKNOWLEDGE AND VIRTIO_STATUS_DRIVER = 0
   \<and> VIRTIO_STATUS_DRIVER \<noteq> 0"
  by (simp add: DriverStatusAck_def DeviceReset_def MmioRead8_def MmioWrite8_def read8_def
      write8_def plain_hw_def VIRTIO_STATUS_ACKNOWLEDGE_def VIRTIO_STATUS_DRIVER_def)

text \<open>
  The legacy backend and the pre-refactor \<^verbatim>\<open>Device::StatusAcknowledgeDriver\<close> set both
  bits.
\<close>

lemma Legacy_DriverStatusAck_sets_both:
  "reg8 (Legacy_DriverStatusAck b (Legacy_DeviceReset b plain_hw)) (Port (bar0_base b + VIRTIO_PCI_DEVICE_STATUS))
     = VIRTIO_STATUS_ACKNOWLEDGE OR VIRTIO_STATUS_DRIVER"
  by (simp add: Legacy_DriverStatusAck_def Legacy_DeviceReset_def inp_def outp_def read8_def
      write8_def plain_hw_def Let_def)

lemma status_read:
  "status_register d = Some l \<Longrightarrow> regs_common_config d = 0 \<Longrightarrow>
   ReadConfigBar8 d VIRTIO_PCI_DEVICE_STATUS h = Some (read8 l h)"
  by (auto simp: status_register_def ReadConfigBar8_def inp_def split: if_splits)

lemma status_write:
  "status_register d = Some l \<Longrightarrow> regs_common_config d = 0 \<Longrightarrow>
   WriteConfigBar8 d VIRTIO_PCI_DEVICE_STATUS v h = Some (write8 l v h)"
  by (auto simp: status_register_def WriteConfigBar8_def outp_def split: if_splits)

lemma status_modern:
  "status_register d = Some l \<Longrightarrow> regs_common_config d \<noteq> 0 \<Longrightarrow>
   l = Mmio (regs_common_config d + off_device_status)"
  by (auto simp: status_register_def split: if_splits)

lemma StatusAcknowledgeDriver_rmw:
  assumes "status_register d = Some l"
  shows "Device_StatusAcknowledgeDriver d h =
           Some (write8 l (reg8 h l OR (VIRTIO_STATUS_ACKNOWLEDGE OR VIRTIO_STATUS_DRIVER)) (snd (read8 l h)))"
proof (cases "regs_common_config d = 0")
  case True
  then show ?thesis
    by (simp add: Device_StatusAcknowledgeDriver_def status_read [OF assms True]
        status_write [OF assms True] read8_def)
next
  case False
  from status_modern [OF assms False] False show ?thesis
    by (simp add: Device_StatusAcknowledgeDriver_def read8_def)
qed

lemma StatusDriverOK_rmw:
  assumes "status_register d = Some l"
  shows "Device_StatusDriverOK d h =
           Some (write8 l (reg8 h l OR VIRTIO_STATUS_DRIVER_OK) (snd (read8 l h)))"
proof (cases "regs_common_config d = 0")
  case True
  then show ?thesis
    by (simp add: Device_StatusDriverOK_def status_read [OF assms True]
        status_write [OF assms True] read8_def)
next
  case False
  from status_modern [OF assms False] False show ?thesis
    by (simp add: Device_StatusDriverOK_def read8_def)
qed

lemma StatusFeaturesOK_rmw:
  assumes "status_register d = Some l"
  shows "Device_StatusFeaturesOK d h =
           Some (if latch8 h l (reg8 h l OR VIRTIO_STATUS_FEATURES_OK) AND VIRTIO_STATUS_FEATURES_OK = 0
                 then ZX_ERR_NOT_SUPPORTED else ZX_OK,
                 h\<lparr>reg8 := (reg8 h)(l := latch8 h l (reg8 h l OR VIRTIO_STATUS_FEATURES_OK)),
                   trace := trace h @ [Read8 l (reg8 h l),
                                       Write8 l (reg8 h l OR VIRTIO_STATUS_FEATURES_OK),
                                       Read8 l (latch8 h l (reg8 h l OR VIRTIO_STATUS_FEATURES_OK))]\<rparr>)"
proof (cases "regs_common_config d = 0")
  case True
  show ?thesis
    by (simp add: Device_StatusFeaturesOK_def status_read [OF assms True]
        status_write [OF assms True] True read8_def write8_def)
next
  case False
  from status_modern [OF assms False] False show ?thesis
    by (simp add: Device_StatusFeaturesOK_def read8_def write8_def Let_def)
qed

lemma Device_StatusAcknowledgeDriver_sets_both:
  "\<exists>h1. Device_StatusAcknowledgeDriver modern_device plain_hw = Some h1
     \<and> reg8 h1 (Mmio (regs_common_config modern_device + off_device_status))
         = VIRTIO_STATUS_ACKNOWLEDGE OR VIRTIO_STATUS_DRIVER"
  by (simp add: Device_StatusAcknowledgeDriver_def modern_device_def Device_new_def read8_def
      write8_def plain_hw_def)

text \<open>
  C7. \<^verbatim>\<open>StatusFeaturesOK\<close> reads the device status, writes it back with FEATURES_OK
  set, and reads it again; it returns \<^verbatim>\<open>ZX_ERR_NOT_SUPPORTED\<close> when the value read
  again has FEATURES_OK clear and \<^verbatim>\<open>ZX_OK\<close> otherwise. In the bring-up sequence of the
  specification, on a device that does not latch FEATURES_OK, the result is
  \<^verbatim>\<open>ZX_ERR_NOT_SUPPORTED\<close> and the re-read is the last access: nothing is written after
  it, DRIVER_OK in particular.
\<close>

theorem StatusFeaturesOK_reread:
  assumes "status_register d = Some l"
  shows "Device_StatusFeaturesOK d h =
           Some (if latch8 h l (reg8 h l OR VIRTIO_STATUS_FEATURES_OK) AND VIRTIO_STATUS_FEATURES_OK = 0
                 then ZX_ERR_NOT_SUPPORTED else ZX_OK,
                 h\<lparr>reg8 := (reg8 h)(l := latch8 h l (reg8 h l OR VIRTIO_STATUS_FEATURES_OK)),
                   trace := trace h @ [Read8 l (reg8 h l),
                                       Write8 l (reg8 h l OR VIRTIO_STATUS_FEATURES_OK),
                                       Read8 l (latch8 h l (reg8 h l OR VIRTIO_STATUS_FEATURES_OK))]\<rparr>)
       \<and> ((\<forall>v. latch8 h l v AND VIRTIO_STATUS_FEATURES_OK = 0) \<longrightarrow>
            (\<exists>h2. bring_up d h = Some (ZX_ERR_NOT_SUPPORTED, h2)
               \<and> trace h2 = trace h @
                   [Read8 l (reg8 h l),
                    Write8 l (reg8 h l OR (VIRTIO_STATUS_ACKNOWLEDGE OR VIRTIO_STATUS_DRIVER)),
                    Read8 l (latch8 h l (reg8 h l OR (VIRTIO_STATUS_ACKNOWLEDGE OR VIRTIO_STATUS_DRIVER))),
                    Write8 l (latch8 h l (reg8 h l OR (VIRTIO_STATUS_ACKNOWLEDGE OR VIRTIO_STATUS_DRIVER))
                                OR VIRTIO_STATUS_FEATURES_OK),
                    Read8 l (latch8 h l (latch8 h l (reg8 h l OR (VIRTIO_STATUS_ACKNOWLEDGE OR VIRTIO_STATUS_DRIVER))
                                           OR VIRTIO_STATUS_FEATURES_OK))]))"
proof (intro conjI impI)
  show "Device_StatusFeaturesOK d h =
           Some (if latch8 h l (reg8 h l OR VIRTIO_STATUS_FEATURES_OK) AND VIRTIO_STATUS_FEATURES_OK = 0
                 then ZX_ERR_NOT_SUPPORTED else ZX_OK,
                 h\<lparr>reg8 := (reg8 h)(l := latch8 h l (reg8 h l OR VIRTIO_STATUS_FEATURES_OK)),
                   trace := trace h @ [Read8 l (reg8 h l),
                                       Write8 l (reg8 h l OR VIRTIO_STATUS_FEATURES_OK),
                                       Read8 l (latch8 h l (reg8 h l OR VIRTIO_STATUS_FEATURES_OK))]\<rparr>)"
    by (rule StatusFeaturesOK_rmw [OF assms])
next
  assume rej: "\<forall>v. latch8 h l v AND VIRTIO_STATUS_FEATURES_OK = 0"
  have ne: "ZX_ERR_NOT_SUPPORTED \<noteq> ZX_OK"
    by (simp add: ZX_ERR_NOT_SUPPORTED_def ZX_OK_def)
  show "\<exists>h2. bring_up d h = Some (ZX_ERR_NOT_SUPPORTED, h2)
               \<and> trace h2 = trace h @
                   [Read8 l (reg8 h l),
                    Write8 l (reg8 h l OR (VIRTIO_STATUS_ACKNOWLEDGE OR VIRTIO_STATUS_DRIVER)),
                    Read8 l (latch8 h l (reg8 h l OR (VIRTIO_STATUS_ACKNOWLEDGE OR VIRTIO_STATUS_DRIVER))),
                    Write8 l (latch8 h l (reg8 h l OR (VIRTIO_STATUS_ACKNOWLEDGE OR VIRTIO_STATUS_DRIVER))
                                OR VIRTIO_STATUS_FEATURES_OK),
                    Read8 l (latch8 h l (latch8 h l (reg8 h l OR (VIRTIO_STATUS_ACKNOWLEDGE OR VIRTIO_STATUS_DRIVER))
                                           OR VIRTIO_STATUS_FEATURES_OK))]"
    using rej ne
    by (simp add: bring_up_def StatusAcknowledgeDriver_rmw [OF assms] StatusFeaturesOK_rmw [OF assms]
        read8_def write8_def)
qed

theorem StatusFeaturesOK_reread_witness:
  "status_register modern_device = Some (Mmio 0xfe001014)
   \<and> (\<forall>v. latch8 rejecting_hw (Mmio 0xfe001014) v AND VIRTIO_STATUS_FEATURES_OK = 0)
   \<and> fst (the (Device_StatusFeaturesOK modern_device rejecting_hw)) = ZX_ERR_NOT_SUPPORTED
   \<and> fst (the (Device_StatusFeaturesOK modern_device plain_hw)) = ZX_OK
   \<and> (\<exists>h2. bring_up modern_device rejecting_hw = Some (ZX_ERR_NOT_SUPPORTED, h2)
        \<and> trace h2 = [Read8 (Mmio 0xfe001014) 0, Write8 (Mmio 0xfe001014) 3,
                       Read8 (Mmio 0xfe001014) 3, Write8 (Mmio 0xfe001014) 11,
                       Read8 (Mmio 0xfe001014) 3])"
proof -
  have l: "status_register modern_device = Some (Mmio 0xfe001014)"
    by (simp add: status_register_def modern_device_def Device_new_def off_device_status_def)
  have r: "\<forall>v. latch8 rejecting_hw (Mmio 0xfe001014) v AND VIRTIO_STATUS_FEATURES_OK = 0"
    by (simp add: rejecting_hw_def plain_hw_def word_bw_assocs)
  have e: "reg8 rejecting_hw (Mmio 0xfe001014) = 0" "trace rejecting_hw = []"
    "latch8 rejecting_hw (Mmio 0xfe001014) = (\<lambda>v. v AND NOT 8)"
    "reg8 plain_hw (Mmio 0xfe001014) = 0" "latch8 plain_hw (Mmio 0xfe001014) = (\<lambda>v. v)"
    by (simp_all add: rejecting_hw_def plain_hw_def VIRTIO_STATUS_FEATURES_OK_def)
  have c: "VIRTIO_STATUS_ACKNOWLEDGE = 1" "VIRTIO_STATUS_DRIVER = 2" "VIRTIO_STATUS_FEATURES_OK = 8"
    by (simp_all add: VIRTIO_STATUS_ACKNOWLEDGE_def VIRTIO_STATUS_DRIVER_def
        VIRTIO_STATUS_FEATURES_OK_def)
  have z: "ZX_ERR_NOT_SUPPORTED \<noteq> ZX_OK"
    by (simp add: ZX_ERR_NOT_SUPPORTED_def ZX_OK_def)
  note t1 = StatusFeaturesOK_reread [OF l, of rejecting_hw]
  note t2 = StatusFeaturesOK_reread [OF l, of plain_hw]
  from t1 have a: "fst (the (Device_StatusFeaturesOK modern_device rejecting_hw)) = ZX_ERR_NOT_SUPPORTED"
    by (simp add: e c)
  from t2 have b: "fst (the (Device_StatusFeaturesOK modern_device plain_hw)) = ZX_OK"
    by (simp add: e c)
  from t1 r have "\<exists>h2. bring_up modern_device rejecting_hw = Some (ZX_ERR_NOT_SUPPORTED, h2)
        \<and> trace h2 = [Read8 (Mmio 0xfe001014) 0, Write8 (Mmio 0xfe001014) 3,
                       Read8 (Mmio 0xfe001014) 3, Write8 (Mmio 0xfe001014) 11,
                       Read8 (Mmio 0xfe001014) 3]"
    by (simp add: e c)
  with l r a b show ?thesis by blast
qed

section \<open>Interrupt status and interrupt service\<close>

text \<open>
  C8. In an iteration of \<^verbatim>\<open>Device::IrqWorker\<close> whose wait and completion succeed, the
  ISR status is read after the wait and before the completion; when the status has both
  the queue-interrupt and the config-change bit, the ring-update callback and then the
  config-change callback run, once each; when the status is zero, neither runs.
\<close>

theorem IrqWorker_iteration_dispatch:
  assumes "wait_rc w = ZX_OK" and "complete_rc w = ZX_OK"
  shows "take 3 (IrqWorker_iteration w) = [InterruptWait, ReadIsrStatus, InterruptComplete]
       \<and> (isr_value w AND VIRTIO_ISR_QUEUE_INT \<noteq> 0 \<and> isr_value w AND VIRTIO_ISR_DEV_CFG_INT \<noteq> 0 \<longrightarrow>
            IrqWorker_iteration w =
              [InterruptWait, ReadIsrStatus, InterruptComplete, IrqRingUpdate, IrqConfigChange])
       \<and> (isr_value w = 0 \<longrightarrow>
            IrqWorker_iteration w = [InterruptWait, ReadIsrStatus, InterruptComplete])"
  using assms by (auto simp: IrqWorker_iteration_def)

theorem IrqWorker_iteration_dispatch_witness:
  "IrqWorker [\<lparr>wait_rc = ZX_OK, isr_value = VIRTIO_ISR_QUEUE_INT OR VIRTIO_ISR_DEV_CFG_INT, complete_rc = ZX_OK\<rparr>,
              \<lparr>wait_rc = ZX_OK, isr_value = 0, complete_rc = ZX_OK\<rparr>] =
     [InterruptWait, ReadIsrStatus, InterruptComplete, IrqRingUpdate, IrqConfigChange,
      InterruptWait, ReadIsrStatus, InterruptComplete]"
proof -
  have b: "(VIRTIO_ISR_QUEUE_INT OR VIRTIO_ISR_DEV_CFG_INT) AND VIRTIO_ISR_QUEUE_INT \<noteq> 0"
    "(VIRTIO_ISR_QUEUE_INT OR VIRTIO_ISR_DEV_CFG_INT) AND VIRTIO_ISR_DEV_CFG_INT \<noteq> 0"
    by (simp_all add: VIRTIO_ISR_QUEUE_INT_def VIRTIO_ISR_DEV_CFG_INT_def)
  from IrqWorker_iteration_dispatch
         [of "\<lparr>wait_rc = ZX_OK, isr_value = VIRTIO_ISR_QUEUE_INT OR VIRTIO_ISR_DEV_CFG_INT, complete_rc = ZX_OK\<rparr>"]
       IrqWorker_iteration_dispatch [of "\<lparr>wait_rc = ZX_OK, isr_value = 0, complete_rc = ZX_OK\<rparr>"]
       b
  show ?thesis by simp
qed

text \<open>
  C10, the modern backend: \<^verbatim>\<open>IsrStatus\<close> returns the register masked to the two
  interrupt bits.
\<close>

lemma Modern_IsrStatus_masked:
  "fst (IsrStatus b h) AND NOT (VIRTIO_ISR_QUEUE_INT OR VIRTIO_ISR_DEV_CFG_INT) = 0"
  by (simp add: IsrStatus_def read32_def) (rule bit_word_eqI, auto simp: bit_simps)

text \<open>
  C10 (what the code does), the legacy backend: with the port window at 0xc000,
  \<^verbatim>\<open>IsrStatus\<close> reads port \<open>0xc013 AND 3 = 3\<close> and returns the byte found there as it is;
  with 0xff at that port the result has six bits set besides the two interrupt bits.
\<close>

theorem Legacy_IsrStatus_unmasked:
  "fst (Legacy_IsrStatus legacy_example (plain_hw\<lparr>reg8 := (reg8 plain_hw)(Port 3 := 0xff)\<rparr>)) = 0xff
   \<and> (0xff :: 32 word) AND NOT (VIRTIO_ISR_QUEUE_INT OR VIRTIO_ISR_DEV_CFG_INT) = 0xfc"
  by (simp add: Legacy_IsrStatus_def legacy_example_def inp_def read8_def plain_hw_def
      VIRTIO_PCI_ISR_STATUS_def VIRTIO_ISR_QUEUE_INT_def VIRTIO_ISR_DEV_CFG_INT_def)

end
